theory Spec2Isabelle
  imports Main "HOL-Library.Word"
begin

unbundle bit_operations_syntax

section \<open>Data model of BRBIP32Sequence.c\<close>

text \<open>
  Fixed-size byte blobs of the C code are words of eight times their size. The byte at
  the lowest address (\<open>u8[0]\<close>) is the most significant byte of the word, so the numeric
  value of a \<open>UInt256\<close> is the 256-bit big-endian integer that secp256k1 and BIP32 read
  from its 32 bytes. Variable-length memory (the seed, HMAC keys and messages, the scratch
  buffer \<open>buf\<close>) is a list of bytes in address order.
\<close>

type_synonym u8 = "8 word"
type_synonym u32 = "32 word"
type_synonym UInt160 = "160 word"
type_synonym UInt256 = "256 word"
type_synonym UInt512 = "512 word"

text \<open>\<open>BRPubKey\<close> is \<open>u8[33]\<close>, a compressed curve point: \<open>sizeof(BRPubKey) = 33\<close>.\<close>

type_synonym BRPubKey = "264 word"

record BRMasterPubKey =
  fingerPrint :: u32
  chainCode :: UInt256
  pubKey :: BRPubKey

text \<open>
  Modelled from the spec: the macro \<open>BR_MASTER_PUBKEY_NONE\<close> comes from a header that
  is not part of the sources; the spec describes it as the sentinel value with all-zero
  fingerprint, chain code and public key.
\<close>

definition BR_MASTER_PUBKEY_NONE :: BRMasterPubKey where
  "BR_MASTER_PUBKEY_NONE = \<lparr>fingerPrint = 0, chainCode = 0, pubKey = 0\<rparr>"

definition BIP32_HARD :: u32 where
  "BIP32_HARD = 0x80000000"

definition BIP32_SEED_KEY :: "u8 list" where
  "BIP32_SEED_KEY = map of_char ''Bitcoin seed''"

subsection \<open>Memory views\<close>

text \<open>The bytes of a blob in address order.\<close>

definition bytes_of :: "'a::len word \<Rightarrow> u8 list" where
  "bytes_of w = map (\<lambda>j. ucast (drop_bit (8 * j) w)) (rev [0..<LENGTH('a) div 8])"

text \<open>
  \<open>*(UInt256 *)&I.u8[off]\<close>: the 32 bytes of a \<open>UInt512\<close> that start at byte offset
  \<open>off\<close>. The code uses \<open>off = 0\<close> (written \<open>*(UInt256 *)&I\<close>) and
  \<open>off = sizeof(UInt256)\<close>.
\<close>

definition UInt256_at :: "UInt512 \<Rightarrow> nat \<Rightarrow> UInt256" where
  "UInt256_at I off = ucast (drop_bit (8 * (32 - off)) I)"

text \<open>
  Modelled from the spec: \<open>be32\<close> is a macro of a header that is not part of the
  sources. \<open>*(uint32_t *)&buf[..] = be32(i)\<close> leaves the four bytes of \<open>i\<close> in memory
  most significant byte first, whatever the byte order of the host
  (the spec: 4-byte-big-endian(index)).
\<close>

definition be32_store :: "u32 \<Rightarrow> u8 list" where
  "be32_store i = [ucast (drop_bit 24 i), ucast (drop_bit 16 i), ucast (drop_bit 8 i), ucast i]"

subsection \<open>Collaborators\<close>

text \<open>The order of the secp256k1 group.\<close>

definition secp256k1_n :: nat where
  "secp256k1_n = 0xFFFFFFFFFFFFFFFFFFFFFFFFFFFFFFFEBAAEDCE6AF48A03BBFD25E8CD0364141"

text \<open>
  Modelled from the spec: \<open>secp256k1_mod_add\<close> belongs to the curve module, which is not
  part of the sources. The spec gives it as \<open>ScalarAddMod(a, b)\<close>, modular addition mod
  the curve order; the code comments it as \<open>k = IL + k (mod n)\<close>.
\<close>

definition secp256k1_mod_add :: "UInt256 \<Rightarrow> UInt256 \<Rightarrow> UInt256" where
  "secp256k1_mod_add a b = of_nat ((unat a + unat b) mod secp256k1_n)"

text \<open>
  The remaining collaborators (hash module, curve points, key objects) are parameters of
  the model: nothing is assumed about what they compute.
  \<^item> \<open>BRHMAC_SHA512 key data\<close> is the 64 bytes that
    \<open>BRHMAC(&I, BRSHA512, sizeof(UInt512), key, keyLen, data, dataLen)\<close> writes to \<open>I\<close>;
  \<^item> \<open>secp256k1_point_mul i\<close> is the 33 bytes that
    \<open>secp256k1_point_mul(r, NULL, i, 1)\<close> writes to \<open>r\<close> (generator times \<open>i\<close>, compressed);
  \<^item> \<open>secp256k1_point_add a b\<close> is what \<open>secp256k1_point_add(r, a, b, 1)\<close> writes to \<open>r\<close>;
  \<^item> \<open>BRKeySetSecret secret\<close> is the key object after
    \<open>BRKeySetSecret(&key, secret, 1)\<close>; the type \<open>BRKey\<close> is opaque here;
  \<^item> \<open>BRKeyHash160 key\<close> is the value of \<open>BRKeyHash160(&key)\<close>;
  \<^item> \<open>BRKeyPubKey key\<close> is the value that \<open>BRKeyPubKey(&key, &pk, sizeof(pk))\<close>
    returns (0 on failure) and the contents of \<open>pk\<close> after the call.
\<close>

record 'key collaborators =
  BRHMAC_SHA512 :: "u8 list \<Rightarrow> u8 list \<Rightarrow> UInt512"
  secp256k1_point_mul :: "UInt256 \<Rightarrow> BRPubKey"
  secp256k1_point_add :: "BRPubKey \<Rightarrow> BRPubKey \<Rightarrow> BRPubKey"
  BRKeySetSecret :: "UInt256 \<Rightarrow> 'key"
  BRKeyHash160 :: "'key \<Rightarrow> UInt160"
  BRKeyPubKey :: "'key \<Rightarrow> nat \<times> BRPubKey"

section \<open>The functions of BRBIP32Sequence.c\<close>

text \<open>
  Every function returns, next to what the caller sees, the final contents of the
  secret-bearing locals of its stack frame, as they are when the function returns.
\<close>

record CKDpriv_frame =
  priv_buf :: "u8 list"
  priv_I :: UInt512

text \<open>
  \<open>static void CKDpriv(UInt256 *k, UInt256 *c, uint32_t i)\<close>: the result is the pair of
  \<open>*k\<close> and \<open>*c\<close> after the call. \<open>buf\<close> is \<open>u8[sizeof(BRPubKey) + sizeof(i)]\<close>, 37 bytes:
  either \<open>buf[0] = 0\<close> and \<open>buf[1..32] = *k\<close>, or the 33 bytes of the point; then
  \<open>buf[33..36] = be32(i)\<close>.
\<close>

definition CKDpriv ::
  "'key collaborators \<Rightarrow> UInt256 \<Rightarrow> UInt256 \<Rightarrow> u32 \<Rightarrow> (UInt256 \<times> UInt256) \<times> CKDpriv_frame" where
  "CKDpriv P k c i =
    (let buf = (if i AND BIP32_HARD \<noteq> 0 then [0] @ bytes_of k
                else bytes_of (secp256k1_point_mul P k));
         buf = buf @ be32_store i;
         I = BRHMAC_SHA512 P (bytes_of c) buf;
         k' = secp256k1_mod_add (UInt256_at I 0) k;
         c' = UInt256_at I 32;
         buf = replicate (length buf) 0;
         I = 0
     in ((k', c'), \<lparr>priv_buf = buf, priv_I = I\<rparr>))"

record CKDpub_frame =
  pub_buf :: "u8 list"
  pub_I :: UInt512
  pub_pIL :: BRPubKey

text \<open>
  \<open>static void CKDpub(BRPubKey *K, UInt256 *c, uint32_t i)\<close>: the result is the pair of
  \<open>*K\<close> and \<open>*c\<close> after the call. The early return for a hardened index comes before the
  locals are declared: that path has no frame.
\<close>

definition CKDpub ::
  "'key collaborators \<Rightarrow> BRPubKey \<Rightarrow> UInt256 \<Rightarrow> u32 \<Rightarrow> (BRPubKey \<times> UInt256) \<times> CKDpub_frame option" where
  "CKDpub P K c i =
    (if i AND BIP32_HARD \<noteq> 0 then ((K, c), None)
     else
       let buf = bytes_of K;
           buf = buf @ be32_store i;
           I = BRHMAC_SHA512 P (bytes_of c) buf;
           c' = UInt256_at I 32;
           pIL = secp256k1_point_mul P (UInt256_at I 0);
           K' = secp256k1_point_add P pIL K;
           buf = replicate (length buf) 0;
           I = 0;
           pIL = 0
       in ((K', c'), Some \<lparr>pub_buf = buf, pub_I = I, pub_pIL = pIL\<rparr>))"

record 'key MasterPubKey_frame =
  mpk_I :: UInt512
  mpk_secret :: UInt256
  mpk_chain :: UInt256
  mpk_key :: 'key

text \<open>
  \<open>BRMasterPubKey BRBIP32MasterPubKey(const void *seed, size_t seedLen)\<close>. A null
  \<open>seed\<close> is \<open>None\<close>; otherwise \<open>seed\<close> is the memory it points to, of which
  \<open>BRHMAC\<close> reads the first \<open>seedLen\<close> bytes. \<open>BRKeyHash160(&key).u32[0]\<close> is the first
  four bytes of the hash; \<open>fingerPrint\<close> holds them in memory order. The null-seed
  return comes before the locals are declared.
\<close>

definition BRBIP32MasterPubKey ::
  "'key collaborators \<Rightarrow> u8 list option \<Rightarrow> nat \<Rightarrow> BRMasterPubKey \<times> 'key MasterPubKey_frame option" where
  "BRBIP32MasterPubKey P seed seedLen =
    (case seed of
       None \<Rightarrow> (BR_MASTER_PUBKEY_NONE, None)
     | Some bytes \<Rightarrow>
        (let I = BRHMAC_SHA512 P BIP32_SEED_KEY (take seedLen bytes);
             secret = UInt256_at I 0;
             chain = UInt256_at I 32;
             key = BRKeySetSecret P secret;
             fp = ucast (drop_bit 128 (BRKeyHash160 P key));
             ((secret, chain), _) = CKDpriv P secret chain (0 OR BIP32_HARD);
             key = BRKeySetSecret P secret;
             (size, pk) = BRKeyPubKey P key;
             frame = \<lparr>mpk_I = I, mpk_secret = secret, mpk_chain = chain, mpk_key = key\<rparr>
         in if size = 0 then (BR_MASTER_PUBKEY_NONE, Some frame)
            else (\<lparr>fingerPrint = fp, chainCode = chain, pubKey = pk\<rparr>, Some frame)))"

text \<open>
  \<open>BRPubKey BRBIP32PubKey(BRMasterPubKey mpk, int internal, uint32_t index)\<close> declares
  \<open>pubKey\<close> and returns it without a write in between. The first argument is the
  indeterminate content of that local.
\<close>

definition BRBIP32PubKey :: "BRPubKey \<Rightarrow> BRMasterPubKey \<Rightarrow> int \<Rightarrow> u32 \<Rightarrow> BRPubKey" where
  "BRBIP32PubKey pubKey0 mpk internal index = pubKey0"

text \<open>
  \<open>void BRBIP32PrivKey(UInt256 *key, const void *seed, size_t seedlen, int internal,
  uint32_t index)\<close> has an empty body. The first argument is \<open>*key\<close> before the call, the
  result is \<open>*key\<close> after it.
\<close>

definition BRBIP32PrivKey :: "UInt256 \<Rightarrow> u8 list option \<Rightarrow> nat \<Rightarrow> int \<Rightarrow> u32 \<Rightarrow> UInt256" where
  "BRBIP32PrivKey key seed seedlen internal index = key"

text \<open>\<open>BRBIP32PrivKeyList\<close> has an empty body as well: \<open>keys[0..count-1]\<close> stay as they were.\<close>

definition BRBIP32PrivKeyList ::
  "UInt256 list \<Rightarrow> nat \<Rightarrow> u8 list option \<Rightarrow> nat \<Rightarrow> int \<Rightarrow> u32 list \<Rightarrow> UInt256 list" where
  "BRBIP32PrivKeyList keys count seed seedlen internal indexes = keys"

text \<open>
  \<open>size_t BRBIP32SerializeMasterPrivKey(char *s, size_t len, const void *seed, size_t slen)\<close>
  and \<open>size_t BRBIP32SerializeMasterPubKey(char *s, size_t len, BRMasterPubKey mpk)\<close>: the
  body is \<open>return 0;\<close>. The first argument is the caller's buffer before the call (\<open>None\<close>
  for a null \<open>s\<close>); the result is the returned size and the buffer after the call.
\<close>

definition BRBIP32SerializeMasterPrivKey ::
  "char list option \<Rightarrow> nat \<Rightarrow> u8 list option \<Rightarrow> nat \<Rightarrow> nat \<times> char list option" where
  "BRBIP32SerializeMasterPrivKey s len seed slen = (0, s)"

definition BRBIP32SerializeMasterPubKey ::
  "char list option \<Rightarrow> nat \<Rightarrow> BRMasterPubKey \<Rightarrow> nat \<times> char list option" where
  "BRBIP32SerializeMasterPubKey s len mpk = (0, s)"

section \<open>The behaviour the spec describes\<close>

text \<open>
  The definitions of this section follow the words of the spec, in arithmetic on the
  numbers the blobs stand for. The theorems below compare them with the functions of the
  source.
\<close>

text \<open>The \<open>len\<close>-byte big-endian serialisation of a number (\<open>ser32\<close>, \<open>ser256\<close>, \<open>serP\<close>).\<close>

definition ser_be :: "nat \<Rightarrow> nat \<Rightarrow> u8 list" where
  "ser_be len v = map (\<lambda>j. of_nat (v div 256 ^ j mod 256)) (rev [0..<len])"

text \<open>
  Spec 4.2, CKDpriv(parentScalar, parentChainCode, index): the message is
  0x00, the 32-byte big-endian parent scalar and the 4-byte big-endian index when the
  hardened bit is set (the index is at least \<open>2^31\<close>), and the serialised compressed
  public point of the parent scalar and the 4-byte big-endian index otherwise;
  I = HMAC-SHA512(key = parentChainCode, message); IL and IR are the first and the last
  256 bits of I; childScalar = (IL + parentScalar) mod n; childChainCode = IR.
\<close>

definition CKDpriv_spec ::
  "'key collaborators \<Rightarrow> UInt256 \<Rightarrow> UInt256 \<Rightarrow> u32 \<Rightarrow> UInt256 \<times> UInt256" where
  "CKDpriv_spec P parentScalar parentChainCode index =
    (let message =
           (if 2 ^ 31 \<le> unat index
            then [0] @ ser_be 32 (unat parentScalar) @ ser_be 4 (unat index)
            else ser_be 33 (unat (secp256k1_point_mul P parentScalar)) @ ser_be 4 (unat index));
         I = unat (BRHMAC_SHA512 P (ser_be 32 (unat parentChainCode)) message);
         IL = I div 2 ^ 256;
         IR = I mod 2 ^ 256;
         childScalar = (IL + unat parentScalar) mod secp256k1_n;
         childChainCode = IR
     in (of_nat childScalar, of_nat childChainCode))"

text \<open>
  Spec 4.1: I = HMAC-SHA512(key = "Bitcoin seed", message = seed); IL is the master
  secret scalar and IR the master chain code; the fingerprint is the first 32 bits of
  hash160 of the master public key; one hardened derivation at index 0 gives the account
  secret and chain code; the record is fingerprint, account chain code and account
  public key.
\<close>

definition account_record :: "'key collaborators \<Rightarrow> u8 list \<Rightarrow> BRMasterPubKey" where
  "account_record P seed =
    (let I = unat (BRHMAC_SHA512 P (map of_char ''Bitcoin seed'') seed);
         IL = of_nat (I div 2 ^ 256);
         IR = of_nat (I mod 2 ^ 256);
         fingerprint = of_nat (unat (BRKeyHash160 P (BRKeySetSecret P IL)) div 2 ^ 128);
         (accountSecret, accountChainCode) = CKDpriv_spec P IL IR (2 ^ 31 + 0);
         accountPubKey = snd (BRKeyPubKey P (BRKeySetSecret P accountSecret))
     in \<lparr>fingerPrint = fingerprint, chainCode = accountChainCode, pubKey = accountPubKey\<rparr>)"

text \<open>Spec 4.1, Failure: computing the account public key from the derived secret fails.\<close>

definition account_pubkey_fails :: "'key collaborators \<Rightarrow> u8 list \<Rightarrow> bool" where
  "account_pubkey_fails P seed =
    (let I = unat (BRHMAC_SHA512 P (map of_char ''Bitcoin seed'') seed);
         (accountSecret, accountChainCode) =
           CKDpriv_spec P (of_nat (I div 2 ^ 256)) (of_nat (I mod 2 ^ 256)) (2 ^ 31 + 0)
     in fst (BRKeyPubKey P (BRKeySetSecret P accountSecret)) = 0)"

definition DeriveMasterPublicKey_spec :: "'key collaborators \<Rightarrow> u8 list \<Rightarrow> BRMasterPubKey" where
  "DeriveMasterPublicKey_spec P seed =
    (if account_pubkey_fails P seed then BR_MASTER_PUBKEY_NONE else account_record P seed)"

section \<open>Test doubles for the collaborators\<close>

text \<open>
  Concrete collaborators, to run the functions on concrete inputs. The key object is
  its secret; a point is the byte 0x02 followed by 32 bytes, as a compressed point is;
  a hash160 starts with the bytes DE AD BE EF; the HMAC and the size that
  \<open>BRKeyPubKey\<close> returns are chosen per test.
\<close>

definition test_collaborators ::
  "(u8 list \<Rightarrow> u8 list \<Rightarrow> UInt512) \<Rightarrow> nat \<Rightarrow> UInt256 collaborators" where
  "test_collaborators hmac pkSize =
     \<lparr>BRHMAC_SHA512 = hmac,
      secp256k1_point_mul = (\<lambda>i. word_cat (2 :: u8) i),
      secp256k1_point_add = (\<lambda>a b. a + b),
      BRKeySetSecret = (\<lambda>secret. secret),
      BRKeyHash160 = (\<lambda>key. word_cat (0xDEADBEEF :: u32) (ucast key :: 128 word)),
      BRKeyPubKey = (\<lambda>key. (pkSize, word_cat (2 :: u8) key))\<rparr>"

text \<open>An HMAC double whose left half is the key length and whose right half is the data length.\<close>

definition length_hmac :: "u8 list \<Rightarrow> u8 list \<Rightarrow> UInt512" where
  "length_hmac key data = word_cat (of_nat (length key) :: UInt256) (of_nat (length data) :: UInt256)"

text \<open>
  An HMAC double with a chosen left half \<open>IL\<close> for the messages that end in a zero byte
  (an index that is a multiple of 256) and left half 1 for the others.
\<close>

definition edge_hmac :: "UInt256 \<Rightarrow> u8 list \<Rightarrow> u8 list \<Rightarrow> UInt512" where
  "edge_hmac IL key data =
     word_cat (if last data = 0 then IL else 1) (of_nat (length data) :: UInt256)"

definition seed16 :: "u8 list" where
  "seed16 = replicate 16 0"

section \<open>Bytes, bits and numbers\<close>

lemma byte_at:
  "(ucast (drop_bit (8 * j) (w::'a::len word)) :: u8) = of_nat (unat w div 256 ^ j mod 256)"
proof -
  have "unat (ucast (drop_bit (8 * j) w) :: u8) = take_bit 8 (drop_bit (8 * j) (unat w))"
    by (simp only: unsigned_ucast_eq unat_drop_bit_eq) simp
  also have "\<dots> = unat w div 256 ^ j mod 256"
    by (simp add: take_bit_eq_mod drop_bit_eq_div power_mult)
  finally have "unat (ucast (drop_bit (8 * j) w) :: u8) = unat w div 256 ^ j mod 256" .
  moreover have "unat (of_nat (unat w div 256 ^ j mod 256) :: u8) = unat w div 256 ^ j mod 256"
    by (simp add: unat_of_nat)
  ultimately show ?thesis
    by (simp only: word_unat_eq_iff)
qed

lemma bytes_of_ser_be: "bytes_of (w::'a::len word) = ser_be (LENGTH('a) div 8) (unat w)"
  by (simp add: bytes_of_def ser_be_def byte_at)

lemma length_bytes_of: "length (bytes_of (w::'a::len word)) = LENGTH('a) div 8"
  by (simp add: bytes_of_def)

lemma be32_store_bytes_of: "be32_store i = bytes_of i"
  by (simp add: be32_store_def bytes_of_def upt_rec)

lemma hard_bit_iff_bit: "(i AND BIP32_HARD \<noteq> 0) = bit i 31"
proof -
  have "i AND BIP32_HARD = i AND 2 ^ 31"
    by (simp add: BIP32_HARD_def)
  then show ?thesis
    by (simp only: and_exp_eq_0_iff_not_bit) simp
qed

lemma hard_bit: "(i AND BIP32_HARD \<noteq> 0) = (2 ^ 31 \<le> unat i)"
proof -
  have "(i AND BIP32_HARD \<noteq> 0) = bit (unat i) 31"
    by (simp add: hard_bit_iff_bit bit_unsigned_iff)
  also have "\<dots> = odd (unat i div 2 ^ 31)"
    by (simp only: bit_iff_odd)
  also have "\<dots> = (2 ^ 31 \<le> unat i)"
  proof -
    have "unat i < 2 ^ 32"
      using unsigned_less [of i] by simp
    then have "unat i div 2 ^ 31 < 2"
      by simp
    then show ?thesis
      by (auto simp: less_2_cases_iff div_eq_0_iff)
  qed
  finally show ?thesis .
qed

lemma IL_unat: "unat (UInt256_at I 0) = unat I div 2 ^ 256"
proof -
  have "unat I < 2 ^ 512"
    using unsigned_less [of I] by simp
  then have "unat I div 2 ^ 256 < 2 ^ 256"
    by (simp add: less_mult_imp_div_less)
  moreover have "unat (UInt256_at I 0) = take_bit 256 (drop_bit 256 (unat I))"
    unfolding UInt256_at_def by (simp only: unsigned_ucast_eq unat_drop_bit_eq) simp
  ultimately show ?thesis
    by (simp add: take_bit_eq_mod drop_bit_eq_div)
qed

lemma IL_eq: "UInt256_at I 0 = of_nat (unat I div 2 ^ 256)"
proof -
  have "unat I < 2 ^ 512"
    using unsigned_less [of I] by simp
  then have "unat I div 2 ^ 256 < 2 ^ 256"
    by (simp add: less_mult_imp_div_less)
  then have "unat (of_nat (unat I div 2 ^ 256) :: UInt256) = unat I div 2 ^ 256"
    by (simp add: unat_of_nat)
  then show ?thesis
    by (simp only: word_unat_eq_iff IL_unat)
qed

lemma IR_eq: "UInt256_at I 32 = of_nat (unat I mod 2 ^ 256)"
proof -
  have "unat (UInt256_at I 32) = unat I mod 2 ^ 256"
    by (simp add: UInt256_at_def unsigned_ucast_eq take_bit_eq_mod)
  moreover have "unat (of_nat (unat I mod 2 ^ 256) :: UInt256) = unat I mod 2 ^ 256"
    by (simp add: unat_of_nat)
  ultimately show ?thesis
    by (simp only: word_unat_eq_iff)
qed

lemma first_four_bytes: "(ucast (drop_bit 128 (h :: UInt160)) :: u32) = of_nat (unat h div 2 ^ 128)"
proof -
  have "unat h < 2 ^ 160"
    using unsigned_less [of h] by simp
  then have small: "unat h div 2 ^ 128 < 2 ^ 32"
    by (simp add: less_mult_imp_div_less)
  have "unat (ucast (drop_bit 128 h) :: u32) = take_bit 32 (drop_bit 128 (unat h))"
    by (simp only: unsigned_ucast_eq unat_drop_bit_eq) simp
  also have "\<dots> = unat h div 2 ^ 128"
    using small by (simp add: take_bit_eq_mod drop_bit_eq_div)
  finally have "unat (ucast (drop_bit 128 h) :: u32) = unat h div 2 ^ 128" .
  moreover have "unat (of_nat (unat h div 2 ^ 128) :: u32) = unat h div 2 ^ 128"
    using small by (simp add: unat_of_nat)
  ultimately show ?thesis
    by (simp only: word_unat_eq_iff)
qed

lemma IR_unat: "unat (UInt256_at I 32) = unat I mod 2 ^ 256"
  by (simp add: UInt256_at_def unsigned_ucast_eq take_bit_eq_mod)

subsection \<open>Evaluating the test doubles\<close>

lemma UInt256_at_cat_0: "UInt256_at (word_cat (a :: UInt256) (b :: UInt256)) 0 = a"
  by (rule bit_word_eqI) (simp add: UInt256_at_def bit_ucast_iff bit_drop_bit_eq bit_word_cat_iff)

lemma UInt256_at_cat_32: "UInt256_at (word_cat (a :: UInt256) (b :: UInt256)) 32 = b"
  by (rule bit_word_eqI) (simp add: UInt256_at_def bit_ucast_iff bit_drop_bit_eq bit_word_cat_iff)

lemma unat_cat_512:
  "unat (word_cat (a :: UInt256) (b :: UInt256) :: UInt512) = unat a * 2 ^ 256 + unat b"
proof -
  let ?I = "word_cat a b :: UInt512"
  have "unat ?I = unat ?I div 2 ^ 256 * 2 ^ 256 + unat ?I mod 2 ^ 256"
    by (rule div_mult_mod_eq [symmetric])
  also have "\<dots> = unat (UInt256_at ?I 0) * 2 ^ 256 + unat (UInt256_at ?I 32)"
    by (simp only: IL_unat IR_unat)
  finally show ?thesis
    by (simp only: UInt256_at_cat_0 UInt256_at_cat_32)
qed

lemma hash160_cat_prefix:
  "(ucast (drop_bit 128 (word_cat (a :: u32) (b :: 128 word) :: UInt160)) :: u32) = a"
  by (rule bit_word_eqI) (simp add: bit_ucast_iff bit_drop_bit_eq bit_word_cat_iff)

lemma fingerprint_cat:
  "(of_nat (unat (word_cat (a :: u32) (b :: 128 word) :: UInt160)
      div 340282366920938463463374607431768211456) :: u32) = a"
  using first_four_bytes [of "word_cat a b"] by (simp add: hash160_cat_prefix)

lemma length_ser_be: "length (ser_be len v) = len"
  by (simp add: ser_be_def)

section \<open>CKDpriv\<close>

lemma CKDpriv_result: "fst (CKDpriv P k c i) = CKDpriv_spec P k c i"
  unfolding CKDpriv_def CKDpriv_spec_def Let_def
  by (simp add: hard_bit be32_store_bytes_of bytes_of_ser_be IR_eq secp256k1_mod_add_def IL_unat)

lemma CKDpriv_frame_zeroed:
  "snd (CKDpriv P k c i) = \<lparr>priv_buf = replicate 37 0, priv_I = 0\<rparr>"
proof -
  have "length (bytes_of k) = 32" and "length (bytes_of (secp256k1_point_mul P k)) = 33"
    by (simp_all add: length_bytes_of)
  then have "length ((if i AND BIP32_HARD \<noteq> 0 then [0] @ bytes_of k
      else bytes_of (secp256k1_point_mul P k)) @ be32_store i) = 37"
    by (simp add: be32_store_def)
  then show ?thesis
    by (simp only: CKDpriv_def Let_def snd_conv)
qed

text \<open>
  C3: for every parent scalar, parent chain code and index, what CKDpriv leaves in
  \<open>*k\<close> and \<open>*c\<close> is the child scalar and child chain code of spec 4.2: the message is
  0x00, the 32-byte big-endian scalar and the 4-byte big-endian index for a hardened
  index, the serialised compressed point and the 4-byte big-endian index otherwise; I is
  the HMAC-SHA512 of the message under the parent chain code; the child scalar is
  (IL + parentScalar) mod n and the child chain code is IR.
\<close>

theorem CKDpriv_implements_spec:
  "fst (CKDpriv P k c i) = CKDpriv_spec P k c i"
  by (rule CKDpriv_result)

text \<open>
  C4 (the code departs from the claim): neither CKDpriv nor CKDpub tests IL against n
  or the child against zero, and neither moves on to the next index. With an HMAC whose
  left half is \<open>2^256 - 1\<close> (not below n) at index 0, CKDpriv emits the scalar
  \<open>(IL + k) mod n\<close> for index 0, which is not what index 1 gives, and CKDpub emits a point
  for index 0; with left half \<open>n - 1\<close> and parent scalar 1, CKDpriv emits the scalar 0.
\<close>

theorem CKD_emits_invalid_candidates:
  "secp256k1_n \<le> unat (UInt256_at (edge_hmac (- 1) (bytes_of (0 :: UInt256))
       (bytes_of (word_cat (2 :: u8) (1 :: UInt256) :: BRPubKey) @ be32_store 0)) 0)
   \<and> fst (CKDpriv (test_collaborators (edge_hmac (- 1)) 33) 1 0 0)
       = (0x14551231950B75FC4402DA1732FC9BEBF, 37)
   \<and> fst (CKDpriv (test_collaborators (edge_hmac (- 1)) 33) 1 0 1) = (2, 37)
   \<and> fst (fst (CKDpriv (test_collaborators (edge_hmac (of_nat (secp256k1_n - 1))) 33) 1 0 0)) = 0
   \<and> fst (CKDpub (test_collaborators (edge_hmac (- 1)) 33) (word_cat (2 :: u8) (1 :: UInt256)) 0 0)
       = (word_cat (2 :: u8) (- 1 :: UInt256) + word_cat (2 :: u8) (1 :: UInt256), 37)"
proof (intro conjI)
  show "secp256k1_n \<le> unat (UInt256_at (edge_hmac (- 1) (bytes_of (0 :: UInt256))
       (bytes_of (word_cat (2 :: u8) (1 :: UInt256) :: BRPubKey) @ be32_store 0)) 0)"
    by (simp add: edge_hmac_def be32_store_def UInt256_at_cat_0 secp256k1_n_def
        unsigned_minus_1_eq_mask mask_eq_exp_minus_1)
  show "fst (CKDpriv (test_collaborators (edge_hmac (- 1)) 33) 1 0 0)
       = (0x14551231950B75FC4402DA1732FC9BEBF, 37)"
    by (simp add: CKDpriv_def Let_def test_collaborators_def edge_hmac_def be32_store_def
        length_bytes_of UInt256_at_cat_0 UInt256_at_cat_32 BIP32_HARD_def secp256k1_mod_add_def
        secp256k1_n_def unsigned_minus_1_eq_mask mask_eq_exp_minus_1)
  show "fst (CKDpriv (test_collaborators (edge_hmac (- 1)) 33) 1 0 1) = (2, 37)"
    by (simp add: CKDpriv_def Let_def test_collaborators_def edge_hmac_def be32_store_def
        length_bytes_of UInt256_at_cat_0 UInt256_at_cat_32 BIP32_HARD_def secp256k1_mod_add_def
        secp256k1_n_def)
  show "fst (fst (CKDpriv (test_collaborators (edge_hmac (of_nat (secp256k1_n - 1))) 33) 1 0 0)) = 0"
    by (simp add: CKDpriv_def Let_def test_collaborators_def edge_hmac_def be32_store_def
        length_bytes_of UInt256_at_cat_0 UInt256_at_cat_32 BIP32_HARD_def secp256k1_mod_add_def
        secp256k1_n_def unat_of_nat)
  show "fst (CKDpub (test_collaborators (edge_hmac (- 1)) 33) (word_cat (2 :: u8) (1 :: UInt256)) 0 0)
       = (word_cat (2 :: u8) (- 1 :: UInt256) + word_cat (2 :: u8) (1 :: UInt256), 37)"
    by (simp add: CKDpub_def Let_def test_collaborators_def edge_hmac_def be32_store_def
        length_bytes_of UInt256_at_cat_0 UInt256_at_cat_32 BIP32_HARD_def)
qed

section \<open>CKDpub\<close>

lemma CKDpub_frame_zeroed:
  "snd (CKDpub P K c i) =
     (if bit i 31 then None else Some \<lparr>pub_buf = replicate 37 0, pub_I = 0, pub_pIL = 0\<rparr>)"
proof -
  have "length (bytes_of K @ be32_store i) = 37"
    by (simp add: be32_store_def length_bytes_of)
  then show ?thesis
    by (simp add: CKDpub_def Let_def hard_bit_iff_bit)
qed

lemma CKDpub_hardened: "bit i 31 \<Longrightarrow> CKDpub P K c i = ((K, c), None)"
  by (simp add: CKDpub_def hard_bit_iff_bit)

text \<open>
  C5: for every parent point, parent chain code and index whose hardened bit (bit 31) is
  set, CKDpub returns without a child key: \<open>*K\<close> still holds the parent point, and the
  function has returned before it declared a buffer, computed an HMAC or a point.
\<close>

theorem CKDpub_hardened_fails:
  "bit i 31 \<Longrightarrow> fst (fst (CKDpub P K c i)) = K \<and> snd (CKDpub P K c i) = None"
  by (simp add: CKDpub_hardened)

theorem CKDpub_hardened_fails_witness:
  "bit (0x80000000 :: u32) 31
   \<and> fst (fst (CKDpub (test_collaborators length_hmac 33) 7 9 0x80000000)) = 7
   \<and> snd (CKDpub (test_collaborators length_hmac 33) 7 9 0x80000000) = None"
proof -
  have h: "bit (0x80000000 :: u32) 31"
    by simp
  show ?thesis
    using h CKDpub_hardened_fails [OF h, of "test_collaborators length_hmac 33" 7 9] by simp
qed

text \<open>
  C10: for every index with the hardened bit set, CKDpub leaves the chain code as it
  was, and the whole result is the same whatever the collaborators are: no HMAC is
  computed on that path.
\<close>

theorem CKDpub_hardened_keeps_chain_code:
  "bit i 31 \<Longrightarrow> snd (fst (CKDpub P K c i)) = c \<and> CKDpub P K c i = CKDpub Q K c i"
  by (simp add: CKDpub_hardened)

theorem CKDpub_hardened_keeps_chain_code_witness:
  "bit (0x80000000 :: u32) 31
   \<and> snd (fst (CKDpub (test_collaborators length_hmac 33) 7 9 0x80000000)) = 9
   \<and> CKDpub (test_collaborators length_hmac 33) 7 9 0x80000000
       = CKDpub (test_collaborators (edge_hmac 5) 0) 7 9 0x80000000"
proof -
  have h: "bit (0x80000000 :: u32) 31"
    by simp
  show ?thesis
    using h CKDpub_hardened_keeps_chain_code [OF h, of "test_collaborators length_hmac 33" 7 9
        "test_collaborators (edge_hmac 5) 0"]
    by blast
qed

section \<open>BRBIP32MasterPubKey\<close>

lemma MasterPubKey_result:
  "fst (BRBIP32MasterPubKey P (Some seed) seedLen) = DeriveMasterPublicKey_spec P (take seedLen seed)"
  by (simp add: BRBIP32MasterPubKey_def DeriveMasterPublicKey_spec_def account_record_def
      account_pubkey_fails_def Let_def split_beta first_four_bytes BIP32_SEED_KEY_def IL_eq IR_eq
      BIP32_HARD_def CKDpriv_result [symmetric])

text \<open>
  C1, amended: for every non-null seed, BRBIP32MasterPubKey computes
  I = HMAC-SHA512 with key "Bitcoin seed" over the first \<open>seedLen\<close> bytes of the seed, takes
  IL as the master secret and IR as the master chain code, takes the first 32 bits of
  hash160 of the master key as the fingerprint, derives the hardened child 0 with CKDpriv,
  and returns the record of fingerprint, account chain code and account public key,
  unless \<open>BRKeyPubKey\<close> fails on the account secret (returns 0): then it returns the
  all-zero sentinel.
\<close>

theorem BRBIP32MasterPubKey_derives_account_key:
  "fst (BRBIP32MasterPubKey P (Some seed) seedLen)
     = (if account_pubkey_fails P (take seedLen seed) then BR_MASTER_PUBKEY_NONE
        else account_record P (take seedLen seed))"
  by (simp only: MasterPubKey_result DeriveMasterPublicKey_spec_def)

text \<open>
  C1 as stated fails where \<open>BRKeyPubKey\<close> returns 0: for the seed of 16 zero bytes the
  function returns the sentinel, not the record of fingerprint, chain code and public key.
\<close>

theorem BRBIP32MasterPubKey_pubkey_failure_counterexample:
  "fst (BRBIP32MasterPubKey (test_collaborators length_hmac 0) (Some seed16) 16)
     = BR_MASTER_PUBKEY_NONE
   \<and> account_record (test_collaborators length_hmac 0) seed16
     = \<lparr>fingerPrint = 0xDEADBEEF, chainCode = 37, pubKey = word_cat (2 :: u8) (44 :: UInt256)\<rparr>
   \<and> fst (BRBIP32MasterPubKey (test_collaborators length_hmac 0) (Some seed16) 16)
     \<noteq> account_record (test_collaborators length_hmac 0) seed16"
proof -
  have code: "fst (BRBIP32MasterPubKey (test_collaborators length_hmac 0) (Some seed16) 16)
     = BR_MASTER_PUBKEY_NONE"
    by (simp add: BRBIP32MasterPubKey_def Let_def split_beta test_collaborators_def)
  have claimed: "account_record (test_collaborators length_hmac 0) seed16
     = \<lparr>fingerPrint = 0xDEADBEEF, chainCode = 37, pubKey = word_cat (2 :: u8) (44 :: UInt256)\<rparr>"
    by (simp add: account_record_def CKDpriv_spec_def Let_def split_beta test_collaborators_def
        length_hmac_def seed16_def length_ser_be unat_cat_512 fingerprint_cat secp256k1_n_def)
  show ?thesis
    by (simp only: code claimed) (simp add: BR_MASTER_PUBKEY_NONE_def)
qed

text \<open>
  C6, amended: for a null seed, whatever \<open>seedLen\<close> is, BRBIP32MasterPubKey returns the
  all-zero sentinel (and has touched no local). A non-null seed of length 0 is not
  rejected: the derivation runs on the empty message, as for any other seed.
\<close>

theorem BRBIP32MasterPubKey_null_seed:
  "BRBIP32MasterPubKey P None seedLen = (BR_MASTER_PUBKEY_NONE, None)
   \<and> fst (BRBIP32MasterPubKey P (Some seed) 0) = DeriveMasterPublicKey_spec P []"
  by (simp add: MasterPubKey_result) (simp add: BRBIP32MasterPubKey_def)

text \<open>
  C6 as stated fails for a non-null seed of length 0: the result is a derived record,
  not the sentinel.
\<close>

theorem BRBIP32MasterPubKey_empty_seed_counterexample:
  "fst (BRBIP32MasterPubKey (test_collaborators length_hmac 33) (Some []) 0)
     = \<lparr>fingerPrint = 0xDEADBEEF, chainCode = 37, pubKey = word_cat (2 :: u8) (44 :: UInt256)\<rparr>
   \<and> fst (BRBIP32MasterPubKey (test_collaborators length_hmac 33) (Some []) 0)
     \<noteq> BR_MASTER_PUBKEY_NONE"
proof -
  have code: "fst (BRBIP32MasterPubKey (test_collaborators length_hmac 33) (Some []) 0)
     = \<lparr>fingerPrint = 0xDEADBEEF, chainCode = 37, pubKey = word_cat (2 :: u8) (44 :: UInt256)\<rparr>"
    by (simp add: BRBIP32MasterPubKey_def CKDpriv_def Let_def split_beta test_collaborators_def
        length_hmac_def be32_store_def length_bytes_of UInt256_at_cat_0 UInt256_at_cat_32
        hash160_cat_prefix BIP32_SEED_KEY_def BIP32_HARD_def secp256k1_mod_add_def secp256k1_n_def)
  show ?thesis
    by (simp only: code) (simp add: BR_MASTER_PUBKEY_NONE_def)
qed

text \<open>
  C9 (the code departs from the claim): CKDpriv and CKDpub zero their buffers
  (\<open>CKDpriv_frame_zeroed\<close>, \<open>CKDpub_frame_zeroed\<close>), BRBIP32MasterPubKey does not. When it
  returns for a non-null seed, \<open>I\<close> still holds the HMAC output and \<open>secret\<close> the account
  secret; for the seed of 16 zero bytes the frame is given in full.
\<close>

theorem BRBIP32MasterPubKey_leaves_secrets:
  "map_option mpk_I (snd (BRBIP32MasterPubKey P (Some seed) seedLen))
     = Some (BRHMAC_SHA512 P BIP32_SEED_KEY (take seedLen seed))
   \<and> map_option mpk_secret (snd (BRBIP32MasterPubKey P (Some seed) seedLen))
     = Some (fst (CKDpriv_spec P
          (UInt256_at (BRHMAC_SHA512 P BIP32_SEED_KEY (take seedLen seed)) 0)
          (UInt256_at (BRHMAC_SHA512 P BIP32_SEED_KEY (take seedLen seed)) 32) BIP32_HARD))
   \<and> snd (BRBIP32MasterPubKey (test_collaborators length_hmac 33) (Some seed16) 16)
     = Some \<lparr>mpk_I = word_cat (12 :: UInt256) (16 :: UInt256), mpk_secret = 44, mpk_chain = 37,
          mpk_key = 44\<rparr>"
proof -
  have "snd (BRBIP32MasterPubKey (test_collaborators length_hmac 33) (Some seed16) 16)
     = Some \<lparr>mpk_I = word_cat (12 :: UInt256) (16 :: UInt256), mpk_secret = 44, mpk_chain = 37,
          mpk_key = 44\<rparr>"
    by (simp add: BRBIP32MasterPubKey_def CKDpriv_def Let_def split_beta test_collaborators_def
        length_hmac_def seed16_def be32_store_def length_bytes_of UInt256_at_cat_0
        UInt256_at_cat_32 BIP32_SEED_KEY_def BIP32_HARD_def secp256k1_mod_add_def secp256k1_n_def)
  then show ?thesis
    by (simp add: BRBIP32MasterPubKey_def Let_def split_beta CKDpriv_result [symmetric])
qed

section \<open>Path derivation and serialisation\<close>

text \<open>
  C2 (the code departs from the claim): BRBIP32PubKey returns its uninitialised local
  and BRBIP32PrivKey writes nothing, so neither result depends on the master public key,
  the seed, the chain or the index: they are not the two derived keys.
\<close>

theorem BRBIP32PubKey_BRBIP32PrivKey_ignore_inputs:
  "BRBIP32PubKey pubKey0 mpk internal index = BRBIP32PubKey pubKey0 mpk' internal' index'
   \<and> BRBIP32PrivKey key seed seedlen internal index
       = BRBIP32PrivKey key seed' seedlen' internal' index'"
  by (simp add: BRBIP32PubKey_def BRBIP32PrivKey_def)

text \<open>
  C7 (the code departs from the claim): BRBIP32PrivKey and BRBIP32PrivKeyList have
  empty bodies; the caller's output holds after the call what it held before.
\<close>

theorem BRBIP32PrivKey_writes_nothing:
  "BRBIP32PrivKey key seed seedlen internal index = key
   \<and> BRBIP32PrivKeyList keys count seed seedlen internal indexes = keys"
  by (simp add: BRBIP32PrivKey_def BRBIP32PrivKeyList_def)

text \<open>
  C8 (the code departs from the claim): both serialisers return 0 for every input and
  every capacity and leave the caller's buffer as it was.
\<close>

theorem BRBIP32Serialize_returns_zero:
  "BRBIP32SerializeMasterPrivKey s len seed slen = (0, s)
   \<and> BRBIP32SerializeMasterPubKey s len mpk = (0, s)"
  by (simp add: BRBIP32SerializeMasterPrivKey_def BRBIP32SerializeMasterPubKey_def)

end
